theory Spec2Isabelle
  imports Complex_Main "HOL-Library.Stream"
begin

section \<open>Data model\<close>

text \<open>
  The weather reading is the dictionary built by the fetchers
  (\<^verbatim>\<open>_process_tomorrowio_data\<close>); the core only ever reads it by fixed keys,
  so it is a record, with nested dictionaries as nested records. A Python number is
  modelled by the real number it denotes; the arithmetic on floats rounds, see
  \<open>double\<close> below. A numeric field holds the value of a float (or of an integer), so
  a decimal that is not a double enters a reading rounded: the temperature 40.1 is
  the field value \<open>double (401 / 10)\<close>. The keys \<^verbatim>\<open>min\<close>, \<^verbatim>\<open>max\<close> and the
  reading's \<^verbatim>\<open>timestamp\<close> are renamed because the names are taken.
\<close>

record coordinates =
  lat :: real
  lon :: real

record weather_info =
  main :: string
  description :: string
  icon :: string

record temperature_data =
  current :: real
  feels_like :: real
  temp_min :: real
  temp_max :: real
  humidity :: real

record wind_data =
  speed :: real
  direction :: real
  gust :: real

record precip_data =
  rain_1h :: real
  snow_1h :: real

record weather_data =
  location :: string
  coordinates :: coordinates
  fetch_timestamp :: string
  weather :: weather_info
  temperature :: temperature_data
  wind :: wind_data
  visibility :: real
  pressure :: real
  cloudiness :: real
  precipitation :: precip_data
  sunrise :: string
  sunset :: string

text \<open>
  An exception escaping a call is \<open>Inl\<close> of the result. The source has no
  \<^verbatim>\<open>raise\<close> statement and defines no exception class; the only exception a
  call on a complete reading or on \<^verbatim>\<open>None\<close> can meet is the \<^verbatim>\<open>TypeError\<close>
  of subscripting \<^verbatim>\<open>None\<close>.
\<close>

datatype error = TypeError

datatype FlightSafety = SAFE | CAUTION | DANGEROUS | NO_FLY

section \<open>Numbers\<close>

text \<open>
  Rounding to the nearest integer, ties to the even one.
\<close>

definition round_half_even :: "real \<Rightarrow> int" where
  "round_half_even x =
     (let f = \<lfloor>x\<rfloor>; d = x - of_int f
      in if d < 1 / 2 then f else if 1 / 2 < d then f + 1
         else if even f then f else f + 1)"

text \<open>
  A Python float is a binary double: 53 significant bits. \<open>double x\<close> is the double
  nearest to \<open>x\<close>, ties to the even significand, which is the result of every
  arithmetic operation on floats and the value of every decimal literal. The range
  of the exponent is not bounded here: overflow and the subnormal numbers are not
  modelled, nor are NaN and the infinities.
\<close>

definition double :: "real \<Rightarrow> real" where
  "double x =
     (if x = 0 then 0
      else let e = \<lfloor>log 2 \<bar>x\<bar>\<rfloor>; u = 2 powr (of_int e - 52)
           in of_int (round_half_even (x / u)) * u)"

text \<open>Python's \<^verbatim>\<open>int(x)\<close> on a float truncates towards zero.\<close>

definition py_int :: "real \<Rightarrow> int" where
  "py_int x = (if 0 \<le> x then \<lfloor>x\<rfloor> else \<lceil>x\<rceil>)"

section \<open>config.py\<close>

record limits =
  safe :: real
  caution :: real
  dangerous :: real

record temperature_limits =
  min_safe :: real
  max_safe :: real

record precipitation_limits =
  light :: real
  moderate :: real
  heavy :: real

definition WIND_SPEED_LIMITS :: limits where
  "WIND_SPEED_LIMITS = \<lparr>safe = 15, caution = 25, dangerous = 35\<rparr>"

definition VISIBILITY_LIMITS :: limits where
  "VISIBILITY_LIMITS = \<lparr>safe = 10, caution = 5, dangerous = 1\<rparr>"

definition TEMPERATURE_LIMITS :: temperature_limits where
  "TEMPERATURE_LIMITS = \<lparr>min_safe = - 10, max_safe = 40\<rparr>"

text \<open>The literal \<^verbatim>\<open>7.6\<close> is not a double; \<^verbatim>\<open>2.5\<close> is.\<close>

definition PRECIPITATION_LIMITS :: precipitation_limits where
  "PRECIPITATION_LIMITS = \<lparr>light = 25 / 10, moderate = double (76 / 10), heavy = 50\<rparr>"

section \<open>flight_analyzer.py\<close>

record flight_analyzer =
  wind_limits :: limits
  visibility_limits :: limits
  temp_limits :: temperature_limits
  precip_limits :: precipitation_limits

text \<open>\<^verbatim>\<open>FlightAnalyzer.__init__\<close>: the limits are read from \<^verbatim>\<open>Config\<close>.\<close>

definition FlightAnalyzer_init :: flight_analyzer where
  "FlightAnalyzer_init =
     \<lparr>wind_limits = WIND_SPEED_LIMITS,
      visibility_limits = VISIBILITY_LIMITS,
      temp_limits = TEMPERATURE_LIMITS,
      precip_limits = PRECIPITATION_LIMITS\<rparr>"

definition analyze_wind :: "flight_analyzer \<Rightarrow> wind_data \<Rightarrow> int" where
  "analyze_wind self wind_data =
     (let wind_speed = speed wind_data;
          wind_gust = gust wind_data;
          effective_wind = max wind_speed wind_gust
      in if effective_wind \<le> safe (wind_limits self) then 100
         else if effective_wind \<le> caution (wind_limits self) then
           70 - py_int (double (double (effective_wind - safe (wind_limits self)) * 3))
         else if effective_wind \<le> dangerous (wind_limits self) then
           40 - py_int (double (double (effective_wind - caution (wind_limits self)) * 2))
         else 0)"

definition analyze_visibility :: "flight_analyzer \<Rightarrow> real \<Rightarrow> int" where
  "analyze_visibility self visibility_km =
     (if visibility_km \<ge> safe (visibility_limits self) then 100
      else if visibility_km \<ge> caution (visibility_limits self) then 70
      else if visibility_km \<ge> dangerous (visibility_limits self) then 30
      else 0)"

text \<open>
  The temperature score is not truncated: below or above the safe range it is
  \<^verbatim>\<open>max(0, 100 - diff * k)\<close> on the float \<^verbatim>\<open>diff\<close>, each operation rounded.
\<close>

definition analyze_temperature :: "flight_analyzer \<Rightarrow> real \<Rightarrow> real" where
  "analyze_temperature self t =
     (if min_safe (temp_limits self) \<le> t \<and> t \<le> max_safe (temp_limits self) then 100
      else if t < min_safe (temp_limits self) then
        (let diff = double (min_safe (temp_limits self) - t)
         in max 0 (double (100 - double (diff * 5))))
      else
        (let diff = double (t - max_safe (temp_limits self))
         in max 0 (double (100 - double (diff * 3)))))"

definition analyze_precipitation :: "flight_analyzer \<Rightarrow> precip_data \<Rightarrow> int" where
  "analyze_precipitation self precip_data =
     (let total_precip = double (rain_1h precip_data + snow_1h precip_data)
      in if total_precip = 0 then 100
         else if total_precip \<le> light (precip_limits self) then 80
         else if total_precip \<le> moderate (precip_limits self) then 50
         else if total_precip \<le> heavy (precip_limits self) then 20
         else 0)"

definition analyze_clouds :: "real \<Rightarrow> int" where
  "analyze_clouds c =
     (if c \<le> 25 then 100
      else if c \<le> 50 then 85
      else if c \<le> 75 then 70
      else 50)"

definition determine_safety_level :: "real \<Rightarrow> FlightSafety" where
  "determine_safety_level score =
     (if score \<ge> 80 then SAFE
      else if score \<ge> 60 then CAUTION
      else if score \<ge> 30 then DANGEROUS
      else NO_FLY)"

text \<open>
  \<^verbatim>\<open>calculate_flight_score\<close>. \<^verbatim>\<open>not weather_data\<close> holds of \<^verbatim>\<open>None\<close>
  (and of the empty dictionary), modelled as \<open>None\<close>. The weights are decimal
  literals, each product is rounded, and \<^verbatim>\<open>sum(scores)\<close> adds from the left,
  starting at 0 and rounding each partial sum (the plain summation of CPython before
  3.12). The tier is taken from the untruncated total.
\<close>

definition calculate_flight_score ::
  "flight_analyzer \<Rightarrow> weather_data option \<Rightarrow> error + (int \<times> FlightSafety)" where
  "calculate_flight_score self weather_data =
     (case weather_data of
        None \<Rightarrow> Inr (0, NO_FLY)
      | Some wd \<Rightarrow>
          (let scores = [];
               wind_score = analyze_wind self (wind wd);
               scores = scores @ [double (real_of_int wind_score * double (3 / 10))];
               visibility_score = analyze_visibility self (visibility wd);
               scores = scores @ [double (real_of_int visibility_score * double (25 / 100))];
               temp_score = analyze_temperature self (current (temperature wd));
               scores = scores @ [double (temp_score * double (15 / 100))];
               precip_score = analyze_precipitation self (precipitation wd);
               scores = scores @ [double (real_of_int precip_score * double (20 / 100))];
               cloud_score = analyze_clouds (cloudiness wd);
               scores = scores @ [double (real_of_int cloud_score * double (10 / 100))];
               total_score = foldl (\<lambda>a b. double (a + b)) 0 scores;
               safety_level = determine_safety_level total_score
           in Inr (py_int total_score, safety_level)))"

section \<open>Text\<close>

text \<open>
  Strings are byte lists holding the UTF-8 encoding of the Python text; the bytes
  above 127 are written by their codes. \<^verbatim>\<open>str.lower\<close> is modelled on the ASCII
  letters, which is all the two words searched for in the weather category can
  meet.
\<close>

definition lower_char :: "char \<Rightarrow> char" where
  "lower_char c =
     (let n = (of_char c :: nat)
      in if 65 \<le> n \<and> n \<le> 90 then
           (case c of Char b0 b1 b2 b3 b4 b5 b6 b7 \<Rightarrow> Char b0 b1 b2 b3 b4 True b6 b7)
         else c)"

definition lower :: "string \<Rightarrow> string" where
  "lower s = map lower_char s"

fun starts_with :: "string \<Rightarrow> string \<Rightarrow> bool" where
  "starts_with [] s = True"
| "starts_with (p # ps) [] = False"
| "starts_with (p # ps) (c # cs) = (p = c \<and> starts_with ps cs)"

text \<open>\<^verbatim>\<open>needle in s\<close> on strings.\<close>

fun contains :: "string \<Rightarrow> string \<Rightarrow> bool" where
  "contains needle [] = (needle = [])"
| "contains needle (c # cs) = (starts_with needle (c # cs) \<or> contains needle cs)"

text \<open>
  The format \<^verbatim>\<open>{x:.1f}\<close>: one digit after the point, rounded half to even on
  the exact value, with a minus sign for every negative value (also one that rounds
  to zero).
\<close>

definition digit_char :: "nat \<Rightarrow> char" where
  "digit_char n = ''0123456789'' ! n"

fun decimal :: "nat \<Rightarrow> string" where
  "decimal n = (if n < 10 then [digit_char n] else decimal (n div 10) @ [digit_char (n mod 10)])"

declare decimal.simps [simp del]

definition format_1f :: "real \<Rightarrow> string" where
  "format_1f x =
     (let n = nat (round_half_even (\<bar>x\<bar> * 10))
      in (if x < 0 then ''-'' else []) @ decimal (n div 10) @ ''.'' @ [digit_char (n mod 10)])"

text \<open>
  \<^verbatim>\<open>{pressure}\<close> formats with \<^verbatim>\<open>str\<close>, the shortest text that reads back as the
  same float: that depends on the binary representation, so it is a parameter of the
  alert check.
\<close>

type_synonym float_str = "real \<Rightarrow> string"

section \<open>Weather_alerts.py\<close>

datatype AlertLevel = INFO | WARNING | CRITICAL | EMERGENCY

record WeatherAlert =
  level :: AlertLevel
  title :: string
  message :: string
  timestamp :: string

text \<open>
  The clock is the stream of the texts that the successive calls of
  \<^verbatim>\<open>datetime.now().isoformat()\<close> return. \<^verbatim>\<open>WeatherAlert.__init__\<close> reads it
  when no (or an empty) timestamp is passed.
\<close>

type_synonym clock = "string stream"

definition WeatherAlert_init ::
  "AlertLevel \<Rightarrow> string \<Rightarrow> string \<Rightarrow> string option \<Rightarrow> clock \<Rightarrow> WeatherAlert \<times> clock" where
  "WeatherAlert_init lvl ttl msg ts clk =
     (case ts of
        Some t \<Rightarrow>
          if t \<noteq> [] then (\<lparr>level = lvl, title = ttl, message = msg, timestamp = t\<rparr>, clk)
          else (\<lparr>level = lvl, title = ttl, message = msg, timestamp = shd clk\<rparr>, stl clk)
      | None \<Rightarrow> (\<lparr>level = lvl, title = ttl, message = msg, timestamp = shd clk\<rparr>, stl clk))"

record WeatherAlerts =
  active_alerts :: "WeatherAlert list"

definition WeatherAlerts_init :: WeatherAlerts where
  "WeatherAlerts_init = \<lparr>active_alerts = []\<rparr>"

text \<open>
  \<^verbatim>\<open>alerts.append(WeatherAlert(level, title, message))\<close> on the pair of the local
  list and the clock.
\<close>

definition append_alert ::
  "AlertLevel \<Rightarrow> string \<Rightarrow> string \<Rightarrow> WeatherAlert list \<times> clock \<Rightarrow> WeatherAlert list \<times> clock" where
  "append_alert lvl ttl msg st =
     (case WeatherAlert_init lvl ttl msg None (snd st) of
        (a, clk) \<Rightarrow> (fst st @ [a], clk))"

text \<open>
  The body of \<^verbatim>\<open>check_weather_alerts\<close> is six blocks, each an
  \<^verbatim>\<open>if\<close>/\<^verbatim>\<open>elif\<close> chain that appends at most one alert; they are defined one
  by one, in the order of the source, and composed below.
\<close>

definition wind_alerts :: "weather_data \<Rightarrow> WeatherAlert list \<times> clock \<Rightarrow> WeatherAlert list \<times> clock" where
  "wind_alerts wd st =
     (let wind_speed = speed (wind wd)
      in if wind_speed > 40 then
           append_alert EMERGENCY ''Extreme Wind Warning''
             (''Wind speed '' @ format_1f wind_speed
                @ '' km/h exceeds safe limits. DO NOT FLY.'') st
         else if wind_speed > 30 then
           append_alert CRITICAL ''High Wind Warning''
             (''Wind speed '' @ format_1f wind_speed
                @ '' km/h. Flight operations not recommended.'') st
         else if wind_speed > 20 then
           append_alert WARNING ''Wind Advisory''
             (''Wind speed '' @ format_1f wind_speed
                @ '' km/h. Exercise extreme caution.'') st
         else st)"

definition visibility_alerts :: "weather_data \<Rightarrow> WeatherAlert list \<times> clock \<Rightarrow> WeatherAlert list \<times> clock" where
  "visibility_alerts wd st =
     (let visibility = visibility wd
      in if visibility < 1 then
           append_alert CRITICAL ''Low Visibility Warning''
             (''Visibility '' @ format_1f visibility
                @ '' km. Visual flight rules not recommended.'') st
         else if visibility < 3 then
           append_alert WARNING ''Reduced Visibility''
             (''Visibility '' @ format_1f visibility @ '' km. Maintain visual observers.'') st
         else st)"

definition temperature_alerts :: "weather_data \<Rightarrow> WeatherAlert list \<times> clock \<Rightarrow> WeatherAlert list \<times> clock" where
  "temperature_alerts wd st =
     (let temp = current (temperature wd)
      in if temp < - 15 then
           append_alert CRITICAL ''Extreme Cold Warning''
             (''Temperature '' @ format_1f temp @ [CHR 0xC2, CHR 0xB0]
                @ ''C. Battery and equipment failure risk.'') st
         else if temp > 45 then
           append_alert CRITICAL ''Extreme Heat Warning''
             (''Temperature '' @ format_1f temp @ [CHR 0xC2, CHR 0xB0]
                @ ''C. Overheating risk for electronics.'') st
         else st)"

definition precipitation_alerts :: "weather_data \<Rightarrow> WeatherAlert list \<times> clock \<Rightarrow> WeatherAlert list \<times> clock" where
  "precipitation_alerts wd st =
     (let rain = rain_1h (precipitation wd);
          snow = snow_1h (precipitation wd)
      in if rain > 10 \<or> snow > 10 then
           append_alert CRITICAL ''Heavy Precipitation Warning''
             ''Heavy rain/snow detected. Equipment damage risk.'' st
         else if rain > 25 / 10 \<or> snow > 25 / 10 then
           append_alert WARNING ''Precipitation Advisory''
             ''Moderate precipitation. Protect equipment from moisture.'' st
         else st)"

definition pressure_alerts ::
  "float_str \<Rightarrow> weather_data \<Rightarrow> WeatherAlert list \<times> clock \<Rightarrow> WeatherAlert list \<times> clock" where
  "pressure_alerts str wd st =
     (let pressure = pressure wd
      in if pressure < 980 then
           append_alert WARNING ''Low Pressure System''
             (''Low barometric pressure '' @ str pressure @ '' hPa. Storm system possible.'') st
         else if pressure > 1030 then
           append_alert INFO ''High Pressure System''
             (''High barometric pressure '' @ str pressure
                @ '' hPa. Stable conditions expected.'') st
         else st)"

definition condition_alerts :: "weather_data \<Rightarrow> WeatherAlert list \<times> clock \<Rightarrow> WeatherAlert list \<times> clock" where
  "condition_alerts wd st =
     (let weather_main = lower (main (weather wd))
      in if contains ''thunderstorm'' weather_main then
           append_alert EMERGENCY ''Thunderstorm Warning''
             ''Thunderstorm conditions detected. IMMEDIATE LANDING REQUIRED.'' st
         else if contains ''tornado'' weather_main then
           append_alert EMERGENCY ''Tornado Warning''
             ''Tornado activity detected. SEEK IMMEDIATE SHELTER.'' st
         else st)"

text \<open>
  \<^verbatim>\<open>check_weather_alerts\<close> returns the alerts, the object with
  \<^verbatim>\<open>active_alerts\<close> replaced, and the clock after the reads. Subscripting
  \<^verbatim>\<open>None\<close> raises before anything is changed.
\<close>

definition check_weather_alerts ::
  "float_str \<Rightarrow> WeatherAlerts \<Rightarrow> weather_data option \<Rightarrow> clock
     \<Rightarrow> (error + WeatherAlert list) \<times> WeatherAlerts \<times> clock" where
  "check_weather_alerts str self weather_data clk =
     (case weather_data of
        None \<Rightarrow> (Inl TypeError, self, clk)
      | Some wd \<Rightarrow>
          (let st = ([], clk);
               st = wind_alerts wd st;
               st = visibility_alerts wd st;
               st = temperature_alerts wd st;
               st = precipitation_alerts wd st;
               st = pressure_alerts str wd st;
               st = condition_alerts wd st;
               alerts = fst st
           in (Inr alerts, self\<lparr>active_alerts := alerts\<rparr>, snd st)))"

section \<open>flight_analyzer.py: recommendations\<close>

text \<open>
  \<^verbatim>\<open>generate_flight_recommendations\<close>. Each \<^verbatim>\<open>if\<close> that appends a line is the
  list extended by one or no element. The score argument is not read.
\<close>

definition generate_flight_recommendations ::
  "flight_analyzer \<Rightarrow> weather_data option \<Rightarrow> int \<Rightarrow> FlightSafety \<Rightarrow> error + string list" where
  "generate_flight_recommendations self weather_data score safety_level =
     (case weather_data of
        None \<Rightarrow> Inl TypeError
      | Some wd \<Rightarrow>
          (let recommendations = [];
               wind_speed = speed (wind wd);
               recommendations = recommendations @
                 (if wind_speed > caution (wind_limits self) then
                    [[CHR 0xE2, CHR 0x9A, CHR 0xA0, CHR 0xEF, CHR 0xB8, CHR 0x8F]
                       @ '' High wind speeds ('' @ format_1f wind_speed
                       @ '' km/h). Consider postponing flight.'']
                  else if wind_speed > safe (wind_limits self) then
                    [[CHR 0xF0, CHR 0x9F, CHR 0x8C, CHR 0xAA, CHR 0xEF, CHR 0xB8, CHR 0x8F]
                       @ '' Moderate winds ('' @ format_1f wind_speed
                       @ '' km/h). Experienced pilots only.'']
                  else []);
               visibility = visibility wd;
               recommendations = recommendations @
                 (if visibility < caution (visibility_limits self) then
                    [[CHR 0xF0, CHR 0x9F, CHR 0x8C, CHR 0xAB, CHR 0xEF, CHR 0xB8, CHR 0x8F]
                       @ '' Low visibility ('' @ format_1f visibility
                       @ '' km). Use visual observers.'']
                  else []);
               temp = current (temperature wd);
               recommendations = recommendations @
                 (if temp < min_safe (temp_limits self) then
                    [[CHR 0xF0, CHR 0x9F, CHR 0xA5, CHR 0xB6]
                       @ '' Cold temperature ('' @ format_1f temp @ [CHR 0xC2, CHR 0xB0]
                       @ ''C). Check battery performance.'']
                  else if temp > max_safe (temp_limits self) then
                    [[CHR 0xF0, CHR 0x9F, CHR 0x8C, CHR 0xA1, CHR 0xEF, CHR 0xB8, CHR 0x8F]
                       @ '' High temperature ('' @ format_1f temp @ [CHR 0xC2, CHR 0xB0]
                       @ ''C). Monitor for overheating.'']
                  else []);
               rain = rain_1h (precipitation wd);
               snow = snow_1h (precipitation wd);
               recommendations = recommendations @
                 (if rain > 0 then
                    [[CHR 0xF0, CHR 0x9F, CHR 0x8C, CHR 0xA7, CHR 0xEF, CHR 0xB8, CHR 0x8F]
                       @ '' Rain detected ('' @ format_1f rain
                       @ ''mm/h). Protect equipment from moisture.'']
                  else []);
               recommendations = recommendations @
                 (if snow > 0 then
                    [[CHR 0xE2, CHR 0x9D, CHR 0x84, CHR 0xEF, CHR 0xB8, CHR 0x8F]
                       @ '' Snow detected ('' @ format_1f snow
                       @ ''mm/h). Cold weather precautions advised.'']
                  else []);
               recommendations = recommendations @
                 (if safety_level = SAFE then
                    [[CHR 0xE2, CHR 0x9C, CHR 0x85]
                       @ '' Conditions are favorable for flight operations.'']
                  else if safety_level = CAUTION then
                    [[CHR 0xE2, CHR 0x9A, CHR 0xA0, CHR 0xEF, CHR 0xB8, CHR 0x8F]
                       @ '' Proceed with caution. Monitor conditions closely.'']
                  else if safety_level = DANGEROUS then
                    [[CHR 0xE2, CHR 0x9D, CHR 0x8C]
                       @ '' Flight not recommended. Wait for better conditions.'']
                  else
                    [[CHR 0xF0, CHR 0x9F, CHR 0x9A, CHR 0xAB]
                       @ '' DO NOT FLY. Conditions are unsafe for operations.''])
           in Inr recommendations))"

section \<open>Notions used by the properties\<close>



text \<open>
  The weighted sum as the code computes it: every product and every partial sum is
  rounded to a double.
\<close>

definition float_weighted_sum :: "flight_analyzer \<Rightarrow> weather_data \<Rightarrow> real" where
  "float_weighted_sum self wd =
     double (double (double (double (double (0
       + double (real_of_int (analyze_wind self (wind wd)) * double (3 / 10)))
       + double (real_of_int (analyze_visibility self (visibility wd)) * double (25 / 100)))
       + double (analyze_temperature self (current (temperature wd)) * double (15 / 100)))
       + double (real_of_int (analyze_precipitation self (precipitation wd)) * double (20 / 100)))
       + double (real_of_int (analyze_clouds (cloudiness wd)) * double (10 / 100)))"

text \<open>The wind score under the default limits, as a function of the effective wind.\<close>

definition wind_curve :: "real \<Rightarrow> int" where
  "wind_curve e =
     (if e \<le> 15 then 100
      else if e \<le> 25 then 70 - py_int (double (double (e - 15) * 3))
      else if e \<le> 35 then 40 - py_int (double (double (e - 25) * 2))
      else 0)"

text \<open>The four closing lines of the recommendations, by tier.\<close>

definition closing_line :: "FlightSafety \<Rightarrow> string" where
  "closing_line t =
     (case t of
        SAFE \<Rightarrow> [CHR 0xE2, CHR 0x9C, CHR 0x85]
                  @ '' Conditions are favorable for flight operations.''
      | CAUTION \<Rightarrow> [CHR 0xE2, CHR 0x9A, CHR 0xA0, CHR 0xEF, CHR 0xB8, CHR 0x8F]
                  @ '' Proceed with caution. Monitor conditions closely.''
      | DANGEROUS \<Rightarrow> [CHR 0xE2, CHR 0x9D, CHR 0x8C]
                  @ '' Flight not recommended. Wait for better conditions.''
      | NO_FLY \<Rightarrow> [CHR 0xF0, CHR 0x9F, CHR 0x9A, CHR 0xAB]
                  @ '' DO NOT FLY. Conditions are unsafe for operations.'')"

definition is_closing_line :: "string \<Rightarrow> bool" where
  "is_closing_line s =
     (s = closing_line SAFE \<or> s = closing_line CAUTION
      \<or> s = closing_line DANGEROUS \<or> s = closing_line NO_FLY)"

text \<open>
  The two lines about wind that the recommendations can hold, told by the text
  before the number.
\<close>

definition is_high_wind_line :: "string \<Rightarrow> bool" where
  "is_high_wind_line s =
     starts_with ([CHR 0xE2, CHR 0x9A, CHR 0xA0, CHR 0xEF, CHR 0xB8, CHR 0x8F]
                    @ '' High wind speeds ('') s"

definition is_moderate_wind_line :: "string \<Rightarrow> bool" where
  "is_moderate_wind_line s =
     starts_with ([CHR 0xF0, CHR 0x9F, CHR 0x8C, CHR 0xAA, CHR 0xEF, CHR 0xB8, CHR 0x8F]
                    @ '' Moderate winds ('') s"

definition is_wind_line :: "string \<Rightarrow> bool" where
  "is_wind_line s = (is_high_wind_line s \<or> is_moderate_wind_line s)"

text \<open>The alerts of the wind block, told by their titles.\<close>

definition is_wind_alert :: "WeatherAlert \<Rightarrow> bool" where
  "is_wind_alert a =
     (title a = ''Extreme Wind Warning'' \<or> title a = ''High Wind Warning''
      \<or> title a = ''Wind Advisory'')"

text \<open>An alert without its timestamp.\<close>

definition alert_content :: "WeatherAlert \<Rightarrow> AlertLevel \<times> string \<times> string" where
  "alert_content a = (level a, title a, message a)"

text \<open>
  The example reading of the specification; the fields it does not give are
  arguments.
\<close>

definition reading ::
  "real \<Rightarrow> real \<Rightarrow> real \<Rightarrow> real \<Rightarrow> real \<Rightarrow> real \<Rightarrow> real \<Rightarrow> real \<Rightarrow> string
     \<Rightarrow> weather_data \<Rightarrow> weather_data" where
  "reading wspeed wgust vis temp rain snow cloud press wmain rest =
     rest\<lparr>weather := (weather rest)\<lparr>main := wmain\<rparr>,
          temperature := (temperature rest)\<lparr>current := temp\<rparr>,
          wind := (wind rest)\<lparr>speed := wspeed, gust := wgust\<rparr>,
          visibility := vis, pressure := press, cloudiness := cloud,
          precipitation := \<lparr>rain_1h = rain, snow_1h = snow\<rparr>\<rparr>"

text \<open>A complete reading of a calm clear day, for the concrete cases.\<close>

definition calm_day :: weather_data where
  "calm_day =
     \<lparr>location = ''Denver'', coordinates = \<lparr>lat = 39.74, lon = - 104.99\<rparr>,
      fetch_timestamp = ''2024-05-01T12:00:00'',
      weather = \<lparr>main = ''Clear'', description = ''Clear'', icon = ''01d''\<rparr>,
      temperature = \<lparr>current = 22, feels_like = 22, temp_min = 18, temp_max = 25,
                     humidity = 40\<rparr>,
      wind = \<lparr>speed = 10, direction = 180, gust = 0\<rparr>,
      visibility = 15, pressure = 1015, cloudiness = 10,
      precipitation = \<lparr>rain_1h = 0, snow_1h = 0\<rparr>,
      sunrise = [], sunset = []\<rparr>"

definition sample_clock :: clock where
  "sample_clock =
     ''2024-05-01T12:00:00.000001'' ## ''2024-05-01T12:00:00.000002''
       ## sconst ''2024-05-01T12:00:00.000003''"

section \<open>Properties of the rounding\<close>

lemma round_half_even_of_int: "round_half_even (of_int n) = n"
  by (simp add: round_half_even_def)

lemma round_half_even_cases:
  "round_half_even x = \<lfloor>x\<rfloor> \<or> round_half_even x = \<lfloor>x\<rfloor> + 1"
  by (simp add: round_half_even_def Let_def)

lemma round_half_even_mono:
  assumes "x \<le> y"
  shows "round_half_even x \<le> round_half_even y"
proof (cases "\<lfloor>x\<rfloor> = \<lfloor>y\<rfloor>")
  case True
  then show ?thesis using assms by (auto simp: round_half_even_def Let_def)
next
  case False
  then have "\<lfloor>x\<rfloor> + 1 \<le> \<lfloor>y\<rfloor>" using floor_mono [OF assms] by linarith
  then show ?thesis
    using round_half_even_cases [of x] round_half_even_cases [of y] by linarith
qed

lemma round_half_even_ge: "of_int n \<le> x \<Longrightarrow> n \<le> round_half_even x"
  using round_half_even_mono [of "of_int n" x] by (simp add: round_half_even_of_int)

lemma round_half_even_le: "x \<le> of_int n \<Longrightarrow> round_half_even x \<le> n"
  using round_half_even_mono [of x "of_int n"] by (simp add: round_half_even_of_int)

lemma double_0: "double 0 = 0"
  by (simp add: double_def)

lemma binade:
  assumes "0 < x"
  shows "2 powr of_int \<lfloor>log 2 x\<rfloor> \<le> x" and "x < 2 powr (of_int \<lfloor>log 2 x\<rfloor> + 1)"
  using floor_log_eq_powr_iff [of x 2 "\<lfloor>log 2 x\<rfloor>"] assms by simp_all

lemma double_pos_eq:
  assumes "0 < x"
  shows "double x =
    of_int (round_half_even (x / 2 powr (of_int \<lfloor>log 2 x\<rfloor> - 52)))
      * 2 powr (of_int \<lfloor>log 2 x\<rfloor> - 52)"
  using assms by (simp add: double_def Let_def)

lemma double_binade:
  assumes "0 < x"
  shows "2 powr of_int \<lfloor>log 2 x\<rfloor> \<le> double x"
    and "double x \<le> 2 powr (of_int \<lfloor>log 2 x\<rfloor> + 1)"
proof -
  define e where "e = \<lfloor>log 2 x\<rfloor>"
  define u :: real where "u = 2 powr (of_int e - 52)"
  have u: "0 < u" by (simp add: u_def)
  have lo: "2 powr of_int e \<le> x" and hi: "x < 2 powr (of_int e + 1)"
    using binade [OF assms] by (simp_all add: e_def)
  have pe: "2 powr of_int e = 2 ^ 52 * u"
    unfolding u_def by (simp add: powr_diff)
  have pe1: "2 powr (of_int e + 1) = 2 ^ 53 * u"
    unfolding u_def by (simp add: powr_diff powr_add)
  have "of_int (2 ^ 52) \<le> x / u" using lo u by (simp add: pe le_divide_eq)
  then have a: "2 ^ 52 \<le> round_half_even (x / u)" by (rule round_half_even_ge)
  have "x / u \<le> of_int (2 ^ 53)" using hi u by (simp add: pe1 divide_le_eq)
  then have b: "round_half_even (x / u) \<le> 2 ^ 53" by (rule round_half_even_le)
  have d: "double x = of_int (round_half_even (x / u)) * u"
    using double_pos_eq [OF assms] by (simp add: e_def u_def)
  have "2 ^ 52 * u \<le> of_int (round_half_even (x / u)) * u"
    using a u by (intro mult_right_mono) (simp_all add: of_int_le_iff [symmetric] del: of_int_le_iff)
  then show "2 powr of_int \<lfloor>log 2 x\<rfloor> \<le> double x"
    using d pe by (simp add: e_def)
  have "of_int (round_half_even (x / u)) * u \<le> 2 ^ 53 * u"
    using b u by (intro mult_right_mono) (simp_all add: of_int_le_iff [symmetric] del: of_int_le_iff)
  then show "double x \<le> 2 powr (of_int \<lfloor>log 2 x\<rfloor> + 1)"
    using d pe1 by (simp add: e_def)
qed

lemma double_mono_pos:
  assumes "0 < x" and "x \<le> y"
  shows "double x \<le> double y"
proof -
  have y: "0 < y" using assms by linarith
  have le: "\<lfloor>log 2 x\<rfloor> \<le> \<lfloor>log 2 y\<rfloor>"
    using assms by (intro floor_mono) simp
  show ?thesis
  proof (cases "\<lfloor>log 2 x\<rfloor> = \<lfloor>log 2 y\<rfloor>")
    case True
    define u :: real where "u = 2 powr (of_int \<lfloor>log 2 y\<rfloor> - 52)"
    have u: "0 < u" by (simp add: u_def)
    have "x / u \<le> y / u" using assms u by (simp add: divide_right_mono)
    then have "round_half_even (x / u) \<le> round_half_even (y / u)"
      by (rule round_half_even_mono)
    then have "of_int (round_half_even (x / u)) * u \<le> of_int (round_half_even (y / u)) * u"
      using u by (intro mult_right_mono) simp_all
    then show ?thesis
      using double_pos_eq [OF assms(1)] double_pos_eq [OF y] True by (simp add: u_def)
  next
    case False
    then have "\<lfloor>log 2 x\<rfloor> + 1 \<le> \<lfloor>log 2 y\<rfloor>" using le by linarith
    then have "(2::real) powr (of_int \<lfloor>log 2 x\<rfloor> + 1) \<le> 2 powr of_int \<lfloor>log 2 y\<rfloor>"
      by (intro powr_mono) (simp_all add: of_int_le_iff [symmetric] del: of_int_le_iff)
    then show ?thesis
      using double_binade(2) [OF assms(1)] double_binade(1) [OF y] by linarith
  qed
qed

lemma double_nonneg: "0 \<le> x \<Longrightarrow> 0 \<le> double x"
proof (cases "x = 0")
  case True
  then show ?thesis by (simp add: double_0)
next
  case False
  assume "0 \<le> x"
  then have "0 < x" using False by simp
  then have "2 powr of_int \<lfloor>log 2 x\<rfloor> \<le> double x" by (rule double_binade(1))
  moreover have "(0::real) < 2 powr of_int \<lfloor>log 2 x\<rfloor>" by simp
  ultimately show ?thesis by linarith
qed

lemma double_nonpos:
  assumes "x \<le> 0"
  shows "double x \<le> 0"
proof (cases "x = 0")
  case True
  then show ?thesis by (simp add: double_0)
next
  case False
  define u :: real where "u = 2 powr (of_int \<lfloor>log 2 \<bar>x\<bar>\<rfloor> - 52)"
  have u: "0 < u" by (simp add: u_def)
  have "x / u \<le> of_int 0" using assms u by (simp add: divide_le_0_iff)
  then have "round_half_even (x / u) \<le> 0" by (rule round_half_even_le)
  then have "of_int (round_half_even (x / u)) * u \<le> 0"
    using u by (simp add: mult_le_0_iff)
  then show ?thesis using False by (simp add: double_def Let_def u_def)
qed

lemma double_mono:
  assumes "x \<le> y" and "0 \<le> y"
  shows "double x \<le> double y"
proof (cases "0 < x")
  case True
  then show ?thesis using assms(1) by (rule double_mono_pos)
next
  case False
  then have "double x \<le> 0" by (intro double_nonpos) simp
  then show ?thesis using double_nonneg [OF assms(2)] by linarith
qed

lemma double_eval:
  assumes "2 ^ 52 \<le> 2 ^ m * \<bar>x\<bar>" and "2 ^ m * \<bar>x\<bar> < 2 ^ 53"
  shows "double x = of_int (round_half_even (x * 2 ^ m)) / 2 ^ m"
proof -
  have x: "x \<noteq> 0" using assms(1) by auto
  then have ax: "0 < \<bar>x\<bar>" by simp
  have p: "(2::real) powr (52 - of_nat m) = 2 ^ 52 / 2 ^ m"
    by (simp add: powr_diff powr_realpow)
  have p1: "(2::real) powr (52 - of_nat m + 1) = 2 ^ 53 / 2 ^ m"
    by (simp add: powr_diff powr_add powr_realpow)
  have "\<lfloor>log 2 \<bar>x\<bar>\<rfloor> = 52 - int m"
  proof -
    have "2 powr of_int (52 - int m) \<le> \<bar>x\<bar>"
      using assms(1) p by (simp add: divide_le_eq mult.commute)
    moreover have "\<bar>x\<bar> < 2 powr (of_int (52 - int m) + 1)"
      using assms(2) p1 by (simp add: less_divide_eq mult.commute)
    ultimately show ?thesis
      using floor_log_eq_powr_iff [of "\<bar>x\<bar>" 2 "52 - int m"] ax by simp
  qed
  then have "double x = of_int (round_half_even (x / 2 powr (- of_nat m))) * 2 powr (- of_nat m)"
    using x by (simp add: double_def Let_def)
  moreover have "(2::real) powr (- of_nat m) = 1 / 2 ^ m"
    by (simp add: powr_minus powr_realpow divide_simps)
  ultimately show ?thesis by simp
qed


lemmas double_evals =
  double_eval [of 44] double_eval [of 45] double_eval [of 46] double_eval [of 47]
  double_eval [of 48] double_eval [of 49] double_eval [of 50] double_eval [of 51]
  double_eval [of 52] double_eval [of 53] double_eval [of 54] double_eval [of 55]
  double_eval [of 56]

lemma double_small:
  "double 5 = 5" "double 10 = 10" "double 20 = 20" "double 30 = 30" "double 55 = 55"
  "double 70 = 70" "double 90 = 90" "double 100 = 100"
  by (simp_all add: double_evals round_half_even_def)

lemma weights_nonneg:
  "0 \<le> double (3 / 10)" "0 \<le> double (25 / 100)" "0 \<le> double (15 / 100)"
  "0 \<le> double (20 / 100)" "0 \<le> double (10 / 100)"
  by (simp_all add: double_nonneg)

lemma full_terms:
  "double (100 * double (3 / 10)) = 30" "double (100 * double (25 / 100)) = 25"
  "double (100 * double (15 / 100)) = 15" "double (100 * double (20 / 100)) = 20"
  "double (100 * double (10 / 100)) = 10" "double (50 * double (10 / 100)) = 5"
  by (simp_all add: double_evals round_half_even_def)

section \<open>Properties of the scoring\<close>

lemmas default_limits =
  FlightAnalyzer_init_def WIND_SPEED_LIMITS_def VISIBILITY_LIMITS_def
  TEMPERATURE_LIMITS_def PRECIPITATION_LIMITS_def

lemma analyze_wind_default:
  "analyze_wind FlightAnalyzer_init w = wind_curve (max (speed w) (gust w))"
  by (simp add: analyze_wind_def wind_curve_def default_limits Let_def)

lemma py_int_nonneg: "0 \<le> x \<Longrightarrow> py_int x = \<lfloor>x\<rfloor>"
  by (simp add: py_int_def)

lemma py_int_between:
  assumes "0 \<le> x" and "x \<le> real_of_int n"
  shows "0 \<le> py_int x \<and> py_int x \<le> n"
proof -
  have "py_int x = \<lfloor>x\<rfloor>" using assms(1) by (rule py_int_nonneg)
  moreover have "0 \<le> \<lfloor>x\<rfloor>" using assms(1) by simp
  moreover have "\<lfloor>x\<rfloor> \<le> n" using assms(2) by (simp add: floor_le_iff)
  ultimately show ?thesis by simp
qed

lemma py_int_mono: "0 \<le> x \<Longrightarrow> x \<le> y \<Longrightarrow> py_int x \<le> py_int y"
  by (simp add: py_int_nonneg floor_mono)

text \<open>The penalty \<^verbatim>\<open>(wind - limit) * k\<close>, rounded twice, on a bracket of width 10.\<close>

lemma penalty_nonneg:
  assumes "0 \<le> x" and "0 \<le> k"
  shows "0 \<le> double (double x * k)"
  using assms by (intro double_nonneg mult_nonneg_nonneg)

lemma penalty_mono:
  assumes "x \<le> y" and "0 \<le> y" and "0 \<le> k"
  shows "double (double x * k) \<le> double (double y * k)"
proof -
  have "double x \<le> double y" using assms(1,2) by (rule double_mono)
  then have "double x * k \<le> double y * k" using assms(3) by (rule mult_right_mono)
  moreover have "0 \<le> double y * k"
    using assms(2,3) by (intro mult_nonneg_nonneg double_nonneg)
  ultimately show ?thesis by (rule double_mono)
qed

lemma penalty_3: "0 \<le> x \<Longrightarrow> x \<le> 10 \<Longrightarrow> double (double x * 3) \<le> 30"
  using penalty_mono [of x 10 3] by (simp add: double_small)

lemma penalty_2: "0 \<le> x \<Longrightarrow> x \<le> 10 \<Longrightarrow> double (double x * 2) \<le> 20"
  using penalty_mono [of x 10 2] by (simp add: double_small)

lemma wind_curve_mid:
  assumes "15 < e" and "e \<le> 25"
  shows "40 \<le> wind_curve e \<and> wind_curve e \<le> 70"
proof -
  have "0 \<le> double (double (e - 15) * 3)" using assms by (intro penalty_nonneg) simp_all
  moreover have "double (double (e - 15) * 3) \<le> real_of_int 30"
    using assms penalty_3 [of "e - 15"] by simp
  ultimately have "0 \<le> py_int (double (double (e - 15) * 3))
      \<and> py_int (double (double (e - 15) * 3)) \<le> 30"
    by (rule py_int_between)
  then show ?thesis using assms by (simp add: wind_curve_def)
qed

lemma wind_curve_high:
  assumes "25 < e" and "e \<le> 35"
  shows "20 \<le> wind_curve e \<and> wind_curve e \<le> 40"
proof -
  have "0 \<le> double (double (e - 25) * 2)" using assms by (intro penalty_nonneg) simp_all
  moreover have "double (double (e - 25) * 2) \<le> real_of_int 20"
    using assms penalty_2 [of "e - 25"] by simp
  ultimately have "0 \<le> py_int (double (double (e - 25) * 2))
      \<and> py_int (double (double (e - 25) * 2)) \<le> 20"
    by (rule py_int_between)
  then show ?thesis using assms by (simp add: wind_curve_def)
qed

lemma wind_curve_range: "0 \<le> wind_curve e \<and> wind_curve e \<le> 100"
proof -
  consider "e \<le> 15" | "15 < e" "e \<le> 25" | "25 < e" "e \<le> 35" | "35 < e" by linarith
  then show ?thesis
  proof cases
    case 1 then show ?thesis by (simp add: wind_curve_def)
  next
    case 2 then show ?thesis using wind_curve_mid [of e] by linarith
  next
    case 3 then show ?thesis using wind_curve_high [of e] by linarith
  next
    case 4 then show ?thesis by (simp add: wind_curve_def)
  qed
qed

lemma wind_curve_antimono:
  assumes "a \<le> b"
  shows "wind_curve b \<le> wind_curve a"
proof -
  consider "b \<le> 15" | "15 < b" "b \<le> 25" | "25 < b" "b \<le> 35" | "35 < b" by linarith
  then show ?thesis
  proof cases
    case 1
    then show ?thesis using assms by (simp add: wind_curve_def)
  next
    case 2
    show ?thesis
    proof (cases "a \<le> 15")
      case True
      then show ?thesis using wind_curve_mid [OF 2] by (simp add: wind_curve_def)
    next
      case False
      have "double (double (a - 15) * 3) \<le> double (double (b - 15) * 3)"
        using assms 2 by (intro penalty_mono) simp_all
      moreover have "0 \<le> double (double (a - 15) * 3)"
        using False by (intro penalty_nonneg) simp_all
      ultimately have "py_int (double (double (a - 15) * 3))
          \<le> py_int (double (double (b - 15) * 3))"
        by (intro py_int_mono)
      then show ?thesis using False 2 assms by (simp add: wind_curve_def)
    qed
  next
    case 3
    consider "a \<le> 15" | "15 < a" "a \<le> 25" | "25 < a" by linarith
    then show ?thesis
    proof cases
      case 1
      then have "wind_curve a = 100" by (simp add: wind_curve_def)
      then show ?thesis using wind_curve_high [OF 3] by linarith
    next
      case 2
      then show ?thesis using wind_curve_mid [of a] wind_curve_high [OF 3] by linarith
    next
      case 3
      have "double (double (a - 25) * 2) \<le> double (double (b - 25) * 2)"
        using assms \<open>25 < b\<close> by (intro penalty_mono) simp_all
      moreover have "0 \<le> double (double (a - 25) * 2)"
        using 3 by (intro penalty_nonneg) simp_all
      ultimately have "py_int (double (double (a - 25) * 2))
          \<le> py_int (double (double (b - 25) * 2))"
        by (intro py_int_mono)
      then show ?thesis using 3 \<open>25 < b\<close> \<open>b \<le> 35\<close> assms by (simp add: wind_curve_def)
    qed
  next
    case 4
    then have "wind_curve b = 0" by (simp add: wind_curve_def)
    then show ?thesis using wind_curve_range [of a] by linarith
  qed
qed

lemma analyze_wind_range:
  "0 \<le> analyze_wind FlightAnalyzer_init w \<and> analyze_wind FlightAnalyzer_init w \<le> 100"
  unfolding analyze_wind_default by (rule wind_curve_range)

lemma analyze_visibility_range:
  "0 \<le> analyze_visibility self v \<and> analyze_visibility self v \<le> 100"
  by (simp add: analyze_visibility_def)

lemma temperature_penalty:
  assumes "0 \<le> d" and "0 \<le> k"
  shows "max 0 (double (100 - double (double d * k))) \<le> 100"
proof -
  have "0 \<le> double (double d * k)" using assms by (rule penalty_nonneg)
  then have "100 - double (double d * k) \<le> 100" by simp
  then have "double (100 - double (double d * k)) \<le> double 100"
    by (rule double_mono) simp
  then show ?thesis by (simp add: double_small)
qed

lemma analyze_temperature_range:
  "0 \<le> analyze_temperature self t \<and> analyze_temperature self t \<le> 100"
proof -
  have "t < min_safe (temp_limits self) \<Longrightarrow>
      max 0 (double (100 - double (double (min_safe (temp_limits self) - t) * 5))) \<le> 100"
    by (intro temperature_penalty) simp_all
  moreover have "max_safe (temp_limits self) < t \<Longrightarrow>
      max 0 (double (100 - double (double (t - max_safe (temp_limits self)) * 3))) \<le> 100"
    by (intro temperature_penalty) simp_all
  ultimately show ?thesis
    by (auto simp: analyze_temperature_def Let_def)
qed

lemma analyze_precipitation_range:
  "0 \<le> analyze_precipitation self p \<and> analyze_precipitation self p \<le> 100"
  by (simp add: analyze_precipitation_def Let_def)

lemma analyze_clouds_range:
  "50 \<le> analyze_clouds c \<and> analyze_clouds c \<le> 100"
  by (simp add: analyze_clouds_def)

lemma calculate_flight_score_total:
  "calculate_flight_score self (Some wd) =
     Inr (py_int (float_weighted_sum self wd),
          determine_safety_level (float_weighted_sum self wd))"
  by (simp add: calculate_flight_score_def float_weighted_sum_def Let_def)

lemma weighted_term:
  assumes "0 \<le> s" and "s \<le> 100" and "0 \<le> c" and "double (100 * c) = b"
  shows "0 \<le> double (s * c) \<and> double (s * c) \<le> b"
proof -
  have "0 \<le> double (s * c)" using assms(1,3) by (intro double_nonneg mult_nonneg_nonneg)
  moreover have "s * c \<le> 100 * c" using assms(2,3) by (rule mult_right_mono)
  then have "double (s * c) \<le> double (100 * c)"
    using assms(3) by (intro double_mono) simp_all
  ultimately show ?thesis using assms(4) by simp
qed

lemma partial_sum:
  assumes "0 \<le> a" and "a \<le> A" and "0 \<le> p" and "p \<le> P" and "double (A + P) = B"
  shows "0 \<le> double (a + p) \<and> double (a + p) \<le> B"
proof -
  have "0 \<le> double (a + p)" using assms(1,3) by (intro double_nonneg) simp
  moreover have "double (a + p) \<le> double (A + P)"
    using assms(1-4) by (intro double_mono) simp_all
  ultimately show ?thesis using assms(5) by simp
qed

lemma float_weighted_sum_range:
  "5 \<le> float_weighted_sum FlightAnalyzer_init wd
   \<and> float_weighted_sum FlightAnalyzer_init wd \<le> 100"
proof -
  let ?A = FlightAnalyzer_init
  define p1 where "p1 = double (real_of_int (analyze_wind ?A (wind wd)) * double (3 / 10))"
  define p2 where
    "p2 = double (real_of_int (analyze_visibility ?A (visibility wd)) * double (25 / 100))"
  define p3 where
    "p3 = double (analyze_temperature ?A (current (temperature wd)) * double (15 / 100))"
  define p4 where
    "p4 = double (real_of_int (analyze_precipitation ?A (precipitation wd)) * double (20 / 100))"
  define p5 where "p5 = double (real_of_int (analyze_clouds (cloudiness wd)) * double (10 / 100))"
  have p1: "0 \<le> p1 \<and> p1 \<le> 30"
    unfolding p1_def using analyze_wind_range [of "wind wd"]
    by (intro weighted_term weights_nonneg full_terms) simp_all
  have p2: "0 \<le> p2 \<and> p2 \<le> 25"
    unfolding p2_def using analyze_visibility_range [of ?A "visibility wd"]
    by (intro weighted_term weights_nonneg full_terms) simp_all
  have p3: "0 \<le> p3 \<and> p3 \<le> 15"
    unfolding p3_def using analyze_temperature_range [of ?A "current (temperature wd)"]
    by (intro weighted_term weights_nonneg full_terms) simp_all
  have p4: "0 \<le> p4 \<and> p4 \<le> 20"
    unfolding p4_def using analyze_precipitation_range [of ?A "precipitation wd"]
    by (intro weighted_term weights_nonneg full_terms) simp_all
  have p5: "0 \<le> p5 \<and> p5 \<le> 10"
    unfolding p5_def using analyze_clouds_range [of "cloudiness wd"]
    by (intro weighted_term weights_nonneg full_terms) simp_all
  have "50 * double (10 / 100) \<le> real_of_int (analyze_clouds (cloudiness wd)) * double (10 / 100)"
    using analyze_clouds_range [of "cloudiness wd"] weights_nonneg(5)
    by (intro mult_right_mono) simp_all
  then have "double (50 * double (10 / 100)) \<le> p5"
    unfolding p5_def using analyze_clouds_range [of "cloudiness wd"] weights_nonneg(5)
    by (intro double_mono mult_nonneg_nonneg) simp_all
  then have p5lo: "5 \<le> p5" by (simp only: full_terms)
  have s1: "0 \<le> double (0 + p1) \<and> double (0 + p1) \<le> 30"
    using p1 by (intro partial_sum [where A = 0 and P = 30]) (simp_all add: double_small)
  have s2: "0 \<le> double (double (0 + p1) + p2) \<and> double (double (0 + p1) + p2) \<le> 55"
    using s1 p2 by (intro partial_sum [where A = 30 and P = 25]) (simp_all add: double_small)
  have s3: "0 \<le> double (double (double (0 + p1) + p2) + p3)
      \<and> double (double (double (0 + p1) + p2) + p3) \<le> 70"
    using s2 p3 by (intro partial_sum [where A = 55 and P = 15]) (simp_all add: double_small)
  have s4: "0 \<le> double (double (double (double (0 + p1) + p2) + p3) + p4)
      \<and> double (double (double (double (0 + p1) + p2) + p3) + p4) \<le> 90"
    using s3 p4 by (intro partial_sum [where A = 70 and P = 20]) (simp_all add: double_small)
  have s5: "double (double (double (double (double (0 + p1) + p2) + p3) + p4) + p5) \<le> 100"
    using s4 p5 partial_sum [where A = 90 and P = 10 and B = 100
        and a = "double (double (double (double (0 + p1) + p2) + p3) + p4)" and p = p5]
    by (simp add: double_small)
  have "double 5 \<le> double (double (double (double (double (0 + p1) + p2) + p3) + p4) + p5)"
    using s4 p5lo by (intro double_mono) simp_all
  then have lo: "5 \<le> double (double (double (double (double (0 + p1) + p2) + p3) + p4) + p5)"
    by (simp only: double_small)
  show ?thesis
    unfolding float_weighted_sum_def
    using lo s5 by (simp only: p1_def p2_def p3_def p4_def p5_def)
qed




text \<open>
  More values at which the rounding shows. The temperature 40.1 scores
  99.69999999999999, not 99.7; rain 0.1 with snow 7.5 adds up to the double of 7.6 and
  is within the moderate limit; the factor scores 31, 30, 28, 20 and 50, whose exact
  weighted sum is 30, give the score 29.
\<close>

lemma temperature_score_rounds:
  "double (401 / 10) = 5643573283048653 / 140737488355328"
  "analyze_temperature FlightAnalyzer_init (double (401 / 10)) =
     1753940948628275 / 17592186044416"
  by (simp_all add: analyze_temperature_def default_limits double_evals round_half_even_def)

lemma precipitation_sum_rounds:
  "analyze_precipitation FlightAnalyzer_init
     \<lparr>rain_1h = double (1 / 10), snow_1h = 75 / 10\<rparr> = 50"
  by (simp add: analyze_precipitation_def default_limits double_evals round_half_even_def)

lemma float_sum_below_30:
  "calculate_flight_score FlightAnalyzer_init
     (Some (reading (59 / 2) 0 3 64 10 0 80 1013 ''Clear'' calm_day)) = Inr (29, NO_FLY)"
proof -
  let ?r = "reading (59 / 2) 0 3 64 10 0 80 1013 ''Clear'' calm_day"
  have w: "analyze_wind FlightAnalyzer_init (wind ?r) = 31"
    by (simp add: reading_def calm_day_def analyze_wind_def default_limits py_int_def
          double_evals round_half_even_def)
  have v: "analyze_visibility FlightAnalyzer_init (visibility ?r) = 30"
    by (simp add: reading_def analyze_visibility_def default_limits)
  have t: "analyze_temperature FlightAnalyzer_init (current (temperature ?r)) = 28"
    by (simp add: reading_def calm_day_def analyze_temperature_def default_limits
          double_evals round_half_even_def)
  have p: "analyze_precipitation FlightAnalyzer_init (precipitation ?r) = 20"
    by (simp add: reading_def analyze_precipitation_def default_limits
          double_evals round_half_even_def)
  have c: "analyze_clouds (cloudiness ?r) = 50"
    by (simp add: reading_def analyze_clouds_def)
  have f: "float_weighted_sum FlightAnalyzer_init ?r = 8444249301319679 / 281474976710656"
    unfolding float_weighted_sum_def w v t p c
    by (simp add: double_evals round_half_even_def)
  show ?thesis
    unfolding calculate_flight_score_total f
    by (simp add: py_int_def determine_safety_level_def)
qed

text \<open>
  C2. For the absent reading, \<^verbatim>\<open>calculate_flight_score\<close> returns score 0 and
  tier \<open>NO_FLY\<close>, and raises nothing.
\<close>

theorem score_absent_reading:
  "calculate_flight_score self None = Inr (0, NO_FLY)"
  by (simp add: calculate_flight_score_def)

text \<open>
  C5. The wind score (default limits) does not increase when the effective wind, the
  larger of speed and gust, increases. The score reads nothing but the wind of the
  reading, so the two winds are compared directly.
\<close>

theorem wind_score_antimono:
  "max (speed w1) (gust w1) \<le> max (speed w2) (gust w2) \<Longrightarrow>
   analyze_wind FlightAnalyzer_init w2 \<le> analyze_wind FlightAnalyzer_init w1"
  unfolding analyze_wind_default by (rule wind_curve_antimono)

theorem wind_score_antimono_witness:
  "max (speed \<lparr>speed = 10, direction = 0, gust = 0\<rparr>) (gust \<lparr>speed = 10, direction = 0, gust = 0\<rparr>)
     \<le> max (speed \<lparr>speed = 20, direction = 0, gust = 30\<rparr>) (gust \<lparr>speed = 20, direction = 0, gust = 30\<rparr>)
   \<and> analyze_wind FlightAnalyzer_init \<lparr>speed = 20, direction = 0, gust = 30\<rparr>
     \<le> analyze_wind FlightAnalyzer_init \<lparr>speed = 10, direction = 0, gust = 0\<rparr>"
  using wind_score_antimono
    [of "\<lparr>speed = 10, direction = 0, gust = 0\<rparr>" "\<lparr>speed = 20, direction = 0, gust = 30\<rparr>"]
  by simp

text \<open>
  C10. For every present reading (default limits) the cloudiness score is at least
  50 and the score at least 5, so no present reading is given the score 0 that the
  absent reading gets.
\<close>

theorem present_reading_score_at_least_5:
  "50 \<le> analyze_clouds (cloudiness wd)
   \<and> (\<exists>s t. calculate_flight_score FlightAnalyzer_init (Some wd) = Inr (s, t) \<and> 5 \<le> s)
   \<and> (\<forall>t. calculate_flight_score FlightAnalyzer_init (Some wd) \<noteq> Inr (0, t))"
proof -
  define s where "s = py_int (float_weighted_sum FlightAnalyzer_init wd)"
  note r = float_weighted_sum_range [of wd]
  have "s = \<lfloor>float_weighted_sum FlightAnalyzer_init wd\<rfloor>"
    unfolding s_def using r by (intro py_int_nonneg) linarith
  moreover have "5 \<le> \<lfloor>float_weighted_sum FlightAnalyzer_init wd\<rfloor>" using r by (simp add: le_floor_iff)
  ultimately have s5: "5 \<le> s" by simp
  have c: "calculate_flight_score FlightAnalyzer_init (Some wd) =
             Inr (s, determine_safety_level (float_weighted_sum FlightAnalyzer_init wd))"
    unfolding s_def by (rule calculate_flight_score_total)
  have "50 \<le> analyze_clouds (cloudiness wd)"
    using analyze_clouds_range [of "cloudiness wd"] by simp
  moreover have "\<exists>s t. calculate_flight_score FlightAnalyzer_init (Some wd) = Inr (s, t) \<and> 5 \<le> s"
    using c s5 by blast
  moreover have "\<forall>t. calculate_flight_score FlightAnalyzer_init (Some wd) \<noteq> Inr (0, t)"
    using c s5 by simp
  ultimately show ?thesis by blast
qed

section \<open>Evaluation at concrete values\<close>

lemma format_1f_45: "format_1f 45 = ''45.0''"
  by (simp add: format_1f_def round_half_even_def decimal.simps digit_char_def)

lemma lower_Clear: "lower ''Clear'' = ''clear''"
  by (simp add: lower_def lower_char_def)

lemma append_alert_eq:
  "append_alert l t m st =
     (fst st @ [\<lparr>level = l, title = t, message = m, timestamp = shd (snd st)\<rparr>], stl (snd st))"
  by (simp add: append_alert_def WeatherAlert_init_def)

lemma format_1f_20: "format_1f 20 = ''20.0''"
  by (simp add: format_1f_def round_half_even_def decimal.simps digit_char_def)


lemmas alert_blocks = wind_alerts_def visibility_alerts_def temperature_alerts_def
  precipitation_alerts_def pressure_alerts_def condition_alerts_def

section \<open>The example of a clear day\<close>

text \<open>
  C4. For the reading with wind speed 10, gust 0, visibility 15, temperature 22, no
  rain, no snow, cloudiness 10, pressure 1015 and category Clear (whatever its other
  fields), every factor score is 100, the score is 100 and the tier SAFE, the alert
  check returns no alert, and the recommendations are the single closing line of the
  tier SAFE.
\<close>

theorem clear_day_example:
  "analyze_wind FlightAnalyzer_init (wind (reading 10 0 15 22 0 0 10 1015 ''Clear'' rest)) = 100
   \<and> analyze_visibility FlightAnalyzer_init (visibility (reading 10 0 15 22 0 0 10 1015 ''Clear'' rest)) = 100
   \<and> analyze_temperature FlightAnalyzer_init
        (current (temperature (reading 10 0 15 22 0 0 10 1015 ''Clear'' rest))) = 100
   \<and> analyze_precipitation FlightAnalyzer_init
        (precipitation (reading 10 0 15 22 0 0 10 1015 ''Clear'' rest)) = 100
   \<and> analyze_clouds (cloudiness (reading 10 0 15 22 0 0 10 1015 ''Clear'' rest)) = 100
   \<and> calculate_flight_score FlightAnalyzer_init (Some (reading 10 0 15 22 0 0 10 1015 ''Clear'' rest))
       = Inr (100, SAFE)
   \<and> fst (check_weather_alerts str self (Some (reading 10 0 15 22 0 0 10 1015 ''Clear'' rest)) clk)
       = Inr []
   \<and> generate_flight_recommendations FlightAnalyzer_init
        (Some (reading 10 0 15 22 0 0 10 1015 ''Clear'' rest)) 100 SAFE
       = Inr [[CHR 0xE2, CHR 0x9C, CHR 0x85] @ '' Conditions are favorable for flight operations.'']"
proof -
  let ?r = "reading 10 0 15 22 0 0 10 1015 ''Clear'' rest"
  have w: "analyze_wind FlightAnalyzer_init (wind ?r) = 100"
    by (simp add: reading_def analyze_wind_def default_limits)
  have v: "analyze_visibility FlightAnalyzer_init (visibility ?r) = 100"
    by (simp add: reading_def analyze_visibility_def default_limits)
  have t: "analyze_temperature FlightAnalyzer_init (current (temperature ?r)) = 100"
    by (simp add: reading_def analyze_temperature_def default_limits)
  have p: "analyze_precipitation FlightAnalyzer_init (precipitation ?r) = 100"
    by (simp add: reading_def analyze_precipitation_def default_limits double_0)
  have c: "analyze_clouds (cloudiness ?r) = 100"
    by (simp add: reading_def analyze_clouds_def)
  have s: "calculate_flight_score FlightAnalyzer_init (Some ?r) = Inr (100, SAFE)"
    unfolding calculate_flight_score_total float_weighted_sum_def w v t p c
    by (simp add: determine_safety_level_def py_int_def double_evals round_half_even_def)
  have a: "fst (check_weather_alerts str self (Some ?r) clk) = Inr []"
    by (simp add: check_weather_alerts_def alert_blocks reading_def lower_Clear)
  have g: "generate_flight_recommendations FlightAnalyzer_init (Some ?r) 100 SAFE
       = Inr [[CHR 0xE2, CHR 0x9C, CHR 0x85] @ '' Conditions are favorable for flight operations.'']"
    by (simp add: generate_flight_recommendations_def default_limits reading_def)
  show ?thesis using w v t p c s a g by blast
qed

section \<open>Properties of the alert check\<close>

lemma wind_alerts_gust: "wind_alerts (wd\<lparr>wind := (wind wd)\<lparr>gust := g\<rparr>\<rparr>) st = wind_alerts wd st"
  by (simp add: wind_alerts_def)

lemma check_weather_alerts_gust:
  "check_weather_alerts str self (Some (wd\<lparr>wind := (wind wd)\<lparr>gust := g\<rparr>\<rparr>)) clk
     = check_weather_alerts str self (Some wd) clk"
  by (simp add: check_weather_alerts_def alert_blocks)

lemma wind_alerts_filter:
  "map (\<lambda>a. (level a, title a)) (filter is_wind_alert (fst (wind_alerts wd ([], clk)))) =
     (if speed (wind wd) > 40 then [(EMERGENCY, ''Extreme Wind Warning'')]
      else if speed (wind wd) > 30 then [(CRITICAL, ''High Wind Warning'')]
      else if speed (wind wd) > 20 then [(WARNING, ''Wind Advisory'')]
      else [])"
  by (simp add: wind_alerts_def Let_def append_alert_eq is_wind_alert_def)

lemma visibility_alerts_filter:
  "filter is_wind_alert (fst (visibility_alerts wd st)) = filter is_wind_alert (fst st)"
  by (simp add: visibility_alerts_def Let_def append_alert_eq is_wind_alert_def)

lemma temperature_alerts_filter:
  "filter is_wind_alert (fst (temperature_alerts wd st)) = filter is_wind_alert (fst st)"
  by (simp add: temperature_alerts_def Let_def append_alert_eq is_wind_alert_def)

lemma precipitation_alerts_filter:
  "filter is_wind_alert (fst (precipitation_alerts wd st)) = filter is_wind_alert (fst st)"
  by (simp add: precipitation_alerts_def Let_def append_alert_eq is_wind_alert_def)

lemma pressure_alerts_filter:
  "filter is_wind_alert (fst (pressure_alerts str wd st)) = filter is_wind_alert (fst st)"
  by (simp add: pressure_alerts_def Let_def append_alert_eq is_wind_alert_def)

lemma condition_alerts_filter:
  "filter is_wind_alert (fst (condition_alerts wd st)) = filter is_wind_alert (fst st)"
  by (simp add: condition_alerts_def Let_def append_alert_eq is_wind_alert_def)

lemmas other_alerts_filter = visibility_alerts_filter temperature_alerts_filter
  precipitation_alerts_filter pressure_alerts_filter condition_alerts_filter

lemma check_weather_alerts_Some:
  "check_weather_alerts str self (Some wd) clk =
     (let st = condition_alerts wd (pressure_alerts str wd (precipitation_alerts wd
                 (temperature_alerts wd (visibility_alerts wd (wind_alerts wd ([], clk))))))
      in (Inr (fst st), self\<lparr>active_alerts := fst st\<rparr>, snd st))"
  by (simp add: check_weather_alerts_def Let_def)

text \<open>
  C6. The wind block of the alert check reads the wind speed only: changing the gust
  changes nothing in the result. Of the alerts returned, those of the wind block are
  the single one of the highest bracket the speed exceeds (40, 30, 20), or none. For
  the reading with wind speed 45, visibility 12, temperature 20, no rain, no snow,
  pressure 1013 and category Clear, with any gust, the check returns exactly one alert,
  the EMERGENCY alert titled Extreme Wind Warning.
\<close>

theorem wind_alert_uses_speed_only:
  "check_weather_alerts str self (Some (wd\<lparr>wind := (wind wd)\<lparr>gust := g\<rparr>\<rparr>)) clk
     = check_weather_alerts str self (Some wd) clk
   \<and> (\<exists>alerts. fst (check_weather_alerts str self (Some wd) clk) = Inr alerts
        \<and> map (\<lambda>a. (level a, title a)) (filter is_wind_alert alerts) =
            (if speed (wind wd) > 40 then [(EMERGENCY, ''Extreme Wind Warning'')]
             else if speed (wind wd) > 30 then [(CRITICAL, ''High Wind Warning'')]
             else if speed (wind wd) > 20 then [(WARNING, ''Wind Advisory'')]
             else []))
   \<and> fst (check_weather_alerts str self
            (Some (reading 45 g 12 20 0 0 cloud 1013 ''Clear'' rest)) clk)
       = Inr [\<lparr>level = EMERGENCY, title = ''Extreme Wind Warning'',
               message = ''Wind speed 45.0 km/h exceeds safe limits. DO NOT FLY.'',
               timestamp = shd clk\<rparr>]"
proof -
  have 1: "check_weather_alerts str self (Some (wd\<lparr>wind := (wind wd)\<lparr>gust := g\<rparr>\<rparr>)) clk
     = check_weather_alerts str self (Some wd) clk"
    by (rule check_weather_alerts_gust)
  have 2: "\<exists>alerts. fst (check_weather_alerts str self (Some wd) clk) = Inr alerts
        \<and> map (\<lambda>a. (level a, title a)) (filter is_wind_alert alerts) =
            (if speed (wind wd) > 40 then [(EMERGENCY, ''Extreme Wind Warning'')]
             else if speed (wind wd) > 30 then [(CRITICAL, ''High Wind Warning'')]
             else if speed (wind wd) > 20 then [(WARNING, ''Wind Advisory'')]
             else [])"
    unfolding check_weather_alerts_Some Let_def
    by (simp only: fst_conv other_alerts_filter wind_alerts_filter sum.inject simp_thms)
  have 3: "fst (check_weather_alerts str self
            (Some (reading 45 g 12 20 0 0 cloud 1013 ''Clear'' rest)) clk)
       = Inr [\<lparr>level = EMERGENCY, title = ''Extreme Wind Warning'',
               message = ''Wind speed 45.0 km/h exceeds safe limits. DO NOT FLY.'',
               timestamp = shd clk\<rparr>]"
    by (simp add: check_weather_alerts_def alert_blocks reading_def lower_Clear format_1f_45
          append_alert_eq Let_def)
  show ?thesis using 1 2 3 by blast
qed

lemma append_alert_content:
  "map alert_content (fst st) = map alert_content (fst st') \<Longrightarrow>
   map alert_content (fst (append_alert l t m st)) =
   map alert_content (fst (append_alert l t m st'))"
  by (simp add: append_alert_eq alert_content_def)

lemma append_alert_clock:
  "map timestamp (fst (append_alert l t m st)) @- snd (append_alert l t m st) =
   map timestamp (fst st) @- snd st"
  by (simp add: append_alert_eq)

lemma wind_alerts_content:
  "map alert_content (fst st) = map alert_content (fst st') \<Longrightarrow>
   map alert_content (fst (wind_alerts wd st)) = map alert_content (fst (wind_alerts wd st'))"
  by (simp add: wind_alerts_def Let_def append_alert_eq alert_content_def)

lemma visibility_alerts_content:
  "map alert_content (fst st) = map alert_content (fst st') \<Longrightarrow>
   map alert_content (fst (visibility_alerts wd st)) =
   map alert_content (fst (visibility_alerts wd st'))"
  by (simp add: visibility_alerts_def Let_def append_alert_eq alert_content_def)

lemma temperature_alerts_content:
  "map alert_content (fst st) = map alert_content (fst st') \<Longrightarrow>
   map alert_content (fst (temperature_alerts wd st)) =
   map alert_content (fst (temperature_alerts wd st'))"
  by (simp add: temperature_alerts_def Let_def append_alert_eq alert_content_def)

lemma precipitation_alerts_content:
  "map alert_content (fst st) = map alert_content (fst st') \<Longrightarrow>
   map alert_content (fst (precipitation_alerts wd st)) =
   map alert_content (fst (precipitation_alerts wd st'))"
  by (simp add: precipitation_alerts_def Let_def append_alert_eq alert_content_def)

lemma pressure_alerts_content:
  "map alert_content (fst st) = map alert_content (fst st') \<Longrightarrow>
   map alert_content (fst (pressure_alerts str wd st)) =
   map alert_content (fst (pressure_alerts str wd st'))"
  by (simp add: pressure_alerts_def Let_def append_alert_eq alert_content_def)

lemma condition_alerts_content:
  "map alert_content (fst st) = map alert_content (fst st') \<Longrightarrow>
   map alert_content (fst (condition_alerts wd st)) =
   map alert_content (fst (condition_alerts wd st'))"
  by (simp add: condition_alerts_def Let_def append_alert_eq alert_content_def)

lemma wind_alerts_clock:
  "map timestamp (fst (wind_alerts wd st)) @- snd (wind_alerts wd st) =
   map timestamp (fst st) @- snd st"
  by (simp add: wind_alerts_def Let_def append_alert_clock)

lemma visibility_alerts_clock:
  "map timestamp (fst (visibility_alerts wd st)) @- snd (visibility_alerts wd st) =
   map timestamp (fst st) @- snd st"
  by (simp add: visibility_alerts_def Let_def append_alert_clock)

lemma temperature_alerts_clock:
  "map timestamp (fst (temperature_alerts wd st)) @- snd (temperature_alerts wd st) =
   map timestamp (fst st) @- snd st"
  by (simp add: temperature_alerts_def Let_def append_alert_clock)

lemma precipitation_alerts_clock:
  "map timestamp (fst (precipitation_alerts wd st)) @- snd (precipitation_alerts wd st) =
   map timestamp (fst st) @- snd st"
  by (simp add: precipitation_alerts_def Let_def append_alert_clock)

lemma pressure_alerts_clock:
  "map timestamp (fst (pressure_alerts str wd st)) @- snd (pressure_alerts str wd st) =
   map timestamp (fst st) @- snd st"
  by (simp add: pressure_alerts_def Let_def append_alert_clock)

lemma condition_alerts_clock:
  "map timestamp (fst (condition_alerts wd st)) @- snd (condition_alerts wd st) =
   map timestamp (fst st) @- snd st"
  by (simp add: condition_alerts_def Let_def append_alert_clock)

lemma shift_eq_stake: "xs @- s = t \<Longrightarrow> xs = stake (length xs) t"
  by (auto simp: stake_shift)

lemma check_weather_alerts_content:
  "map alert_content (fst (condition_alerts wd (pressure_alerts str wd (precipitation_alerts wd
      (temperature_alerts wd (visibility_alerts wd (wind_alerts wd ([], clk)))))))) =
   map alert_content (fst (condition_alerts wd (pressure_alerts str wd (precipitation_alerts wd
      (temperature_alerts wd (visibility_alerts wd (wind_alerts wd ([], clk'))))))))"
  by (intro condition_alerts_content pressure_alerts_content precipitation_alerts_content
        temperature_alerts_content visibility_alerts_content wind_alerts_content) simp

lemma check_weather_alerts_clock:
  "map timestamp (fst (condition_alerts wd (pressure_alerts str wd (precipitation_alerts wd
      (temperature_alerts wd (visibility_alerts wd (wind_alerts wd ([], clk)))))))) @-
   snd (condition_alerts wd (pressure_alerts str wd (precipitation_alerts wd
      (temperature_alerts wd (visibility_alerts wd (wind_alerts wd ([], clk))))))) = clk"
  by (simp only: condition_alerts_clock pressure_alerts_clock precipitation_alerts_clock
        temperature_alerts_clock visibility_alerts_clock wind_alerts_clock
        fst_conv snd_conv list.map shift.simps)

lemma check_weather_alerts_timestamps:
  "map timestamp (fst (condition_alerts wd (pressure_alerts str wd (precipitation_alerts wd
      (temperature_alerts wd (visibility_alerts wd (wind_alerts wd ([], clk)))))))) =
   stake (length (fst (condition_alerts wd (pressure_alerts str wd (precipitation_alerts wd
      (temperature_alerts wd (visibility_alerts wd (wind_alerts wd ([], clk))))))))) clk"
  using shift_eq_stake [OF check_weather_alerts_clock [of wd str clk]] by simp

text \<open>
  C8, as amended. The scoring and the recommendations are functions of the limits and
  the reading alone. Two calls of the alert check on the same reading, from any two
  states of the object and of the clock, return alerts that agree in number, order,
  level, title and message; the timestamps of the alerts of a call are the successive
  readings of the clock at that call.
\<close>

theorem alerts_equal_up_to_timestamp:
  "\<exists>as bs s1 s2 c1 c2.
     check_weather_alerts str self (Some wd) clk = (Inr as, s1, c1)
   \<and> check_weather_alerts str self' (Some wd) clk' = (Inr bs, s2, c2)
   \<and> map alert_content as = map alert_content bs
   \<and> map timestamp as = stake (length as) clk
   \<and> map timestamp bs = stake (length bs) clk'"
  unfolding check_weather_alerts_Some Let_def
  using check_weather_alerts_content [of wd str clk clk']
    check_weather_alerts_timestamps [of wd str clk]
    check_weather_alerts_timestamps [of wd str clk']
  by blast

text \<open>
  C8 as stated fails: a second call of the alert check on the same reading, made after
  the first one, returns an alert with a later timestamp.
\<close>

theorem alerts_twice_differ_in_timestamp:
  "check_weather_alerts format_1f WeatherAlerts_init
     (Some (reading 45 0 12 20 0 0 10 1013 ''Clear'' calm_day)) sample_clock =
     (Inr [\<lparr>level = EMERGENCY, title = ''Extreme Wind Warning'',
             message = ''Wind speed 45.0 km/h exceeds safe limits. DO NOT FLY.'',
             timestamp = ''2024-05-01T12:00:00.000001''\<rparr>],
      \<lparr>active_alerts = [\<lparr>level = EMERGENCY, title = ''Extreme Wind Warning'',
             message = ''Wind speed 45.0 km/h exceeds safe limits. DO NOT FLY.'',
             timestamp = ''2024-05-01T12:00:00.000001''\<rparr>]\<rparr>,
      stl sample_clock)
   \<and> fst (check_weather_alerts format_1f
       \<lparr>active_alerts = [\<lparr>level = EMERGENCY, title = ''Extreme Wind Warning'',
             message = ''Wind speed 45.0 km/h exceeds safe limits. DO NOT FLY.'',
             timestamp = ''2024-05-01T12:00:00.000001''\<rparr>]\<rparr>
       (Some (reading 45 0 12 20 0 0 10 1013 ''Clear'' calm_day)) (stl sample_clock)) =
     Inr [\<lparr>level = EMERGENCY, title = ''Extreme Wind Warning'',
             message = ''Wind speed 45.0 km/h exceeds safe limits. DO NOT FLY.'',
             timestamp = ''2024-05-01T12:00:00.000002''\<rparr>]
   \<and> fst (check_weather_alerts format_1f WeatherAlerts_init
       (Some (reading 45 0 12 20 0 0 10 1013 ''Clear'' calm_day)) sample_clock)
     \<noteq> fst (check_weather_alerts format_1f
       \<lparr>active_alerts = [\<lparr>level = EMERGENCY, title = ''Extreme Wind Warning'',
             message = ''Wind speed 45.0 km/h exceeds safe limits. DO NOT FLY.'',
             timestamp = ''2024-05-01T12:00:00.000001''\<rparr>]\<rparr>
       (Some (reading 45 0 12 20 0 0 10 1013 ''Clear'' calm_day)) (stl sample_clock))"
  by (simp add: check_weather_alerts_def alert_blocks reading_def calm_day_def lower_Clear
        format_1f_45 append_alert_eq Let_def sample_clock_def WeatherAlerts_init_def)

section \<open>Input validation\<close>




section \<open>Properties of the recommendations\<close>

lemma closing_lines_distinct:
  "distinct (map closing_line [SAFE, CAUTION, DANGEROUS, NO_FLY])"
  by (simp add: closing_line_def)

text \<open>
  C7. For every present reading, score and tier, the recommendations are a non-empty
  list whose last element is the closing line of the tier, one of four distinct fixed
  strings, and that element is the only closing line in the list.
\<close>

theorem recommendations_end_with_closing_line:
  "(\<exists>recs. generate_flight_recommendations self (Some wd) score tier = Inr recs
      \<and> recs \<noteq> [] \<and> last recs = closing_line tier
      \<and> filter is_closing_line recs = [closing_line tier])
   \<and> distinct (map closing_line [SAFE, CAUTION, DANGEROUS, NO_FLY])"
proof -
  have "\<exists>recs. generate_flight_recommendations self (Some wd) score tier = Inr recs
      \<and> recs \<noteq> [] \<and> last recs = closing_line tier
      \<and> filter is_closing_line recs = [closing_line tier]"
    by (cases tier)
       (simp_all add: generate_flight_recommendations_def Let_def closing_line_def
          is_closing_line_def)
  then show ?thesis using closing_lines_distinct by blast
qed

text \<open>
  C9, as amended. Of the lines returned, those about wind are: the one line on high
  wind speeds when the wind speed is above the caution limit; the one line on moderate
  winds when it is above the safe limit and not above the caution limit; none when it
  is at or below the safe limit.
\<close>

theorem wind_lines_by_bracket:
  "\<exists>recs. generate_flight_recommendations self (Some wd) score tier = Inr recs
      \<and> filter is_wind_line recs =
          (if speed (wind wd) > caution (wind_limits self) then
             [[CHR 0xE2, CHR 0x9A, CHR 0xA0, CHR 0xEF, CHR 0xB8, CHR 0x8F]
                @ '' High wind speeds ('' @ format_1f (speed (wind wd))
                @ '' km/h). Consider postponing flight.'']
           else if speed (wind wd) > safe (wind_limits self) then
             [[CHR 0xF0, CHR 0x9F, CHR 0x8C, CHR 0xAA, CHR 0xEF, CHR 0xB8, CHR 0x8F]
                @ '' Moderate winds ('' @ format_1f (speed (wind wd))
                @ '' km/h). Experienced pilots only.'']
           else [])"
  by (cases tier)
     (simp_all add: generate_flight_recommendations_def Let_def is_wind_line_def
        is_high_wind_line_def is_moderate_wind_line_def)

text \<open>
  C9 as stated fails: at wind speed 20, below the caution limit 25, the
  recommendations hold a line about the wind.
\<close>

theorem moderate_wind_line_below_caution:
  "speed (wind (reading 20 0 15 22 0 0 10 1015 ''Clear'' calm_day))
     \<le> caution (wind_limits FlightAnalyzer_init)
   \<and> calculate_flight_score FlightAnalyzer_init
       (Some (reading 20 0 15 22 0 0 10 1015 ''Clear'' calm_day)) = Inr (86, SAFE)
   \<and> generate_flight_recommendations FlightAnalyzer_init
       (Some (reading 20 0 15 22 0 0 10 1015 ''Clear'' calm_day)) 86 SAFE =
     Inr [[CHR 0xF0, CHR 0x9F, CHR 0x8C, CHR 0xAA, CHR 0xEF, CHR 0xB8, CHR 0x8F]
            @ '' Moderate winds (20.0 km/h). Experienced pilots only.'',
          [CHR 0xE2, CHR 0x9C, CHR 0x85]
            @ '' Conditions are favorable for flight operations.'']
   \<and> is_wind_line ([CHR 0xF0, CHR 0x9F, CHR 0x8C, CHR 0xAA, CHR 0xEF, CHR 0xB8, CHR 0x8F]
            @ '' Moderate winds (20.0 km/h). Experienced pilots only.'')"
proof -
  let ?r = "reading 20 0 15 22 0 0 10 1015 ''Clear'' calm_day"
  have w: "analyze_wind FlightAnalyzer_init (wind ?r) = 55"
    by (simp add: reading_def calm_day_def analyze_wind_def default_limits py_int_def
          double_evals round_half_even_def)
  have v: "analyze_visibility FlightAnalyzer_init (visibility ?r) = 100"
    by (simp add: reading_def analyze_visibility_def default_limits)
  have t: "analyze_temperature FlightAnalyzer_init (current (temperature ?r)) = 100"
    by (simp add: reading_def calm_day_def analyze_temperature_def default_limits)
  have p: "analyze_precipitation FlightAnalyzer_init (precipitation ?r) = 100"
    by (simp add: reading_def analyze_precipitation_def default_limits double_0)
  have c: "analyze_clouds (cloudiness ?r) = 100"
    by (simp add: reading_def analyze_clouds_def)
  have s: "calculate_flight_score FlightAnalyzer_init (Some ?r) = Inr (86, SAFE)"
    unfolding calculate_flight_score_total float_weighted_sum_def w v t p c
    by (simp add: determine_safety_level_def py_int_def double_evals round_half_even_def)
  have g: "generate_flight_recommendations FlightAnalyzer_init (Some ?r) 86 SAFE =
     Inr [[CHR 0xF0, CHR 0x9F, CHR 0x8C, CHR 0xAA, CHR 0xEF, CHR 0xB8, CHR 0x8F]
            @ '' Moderate winds (20.0 km/h). Experienced pilots only.'',
          [CHR 0xE2, CHR 0x9C, CHR 0x85]
            @ '' Conditions are favorable for flight operations.'']"
    by (simp add: reading_def calm_day_def default_limits generate_flight_recommendations_def
          format_1f_20 Let_def)
  have l: "is_wind_line ([CHR 0xF0, CHR 0x9F, CHR 0x8C, CHR 0xAA, CHR 0xEF, CHR 0xB8, CHR 0x8F]
            @ '' Moderate winds (20.0 km/h). Experienced pilots only.'')"
    by (simp add: is_wind_line_def is_high_wind_line_def is_moderate_wind_line_def)
  have "speed (wind ?r) \<le> caution (wind_limits FlightAnalyzer_init)"
    by (simp add: reading_def calm_day_def default_limits)
  then show ?thesis using s g l by blast
qed

end
